theory Spec2Isabelle
  imports Main "HOL-Library.Char_ord" "HOL-Library.List_Lexorder" "HOL-Library.Product_Lexorder"
begin

section \<open>Python strings\<close>

text \<open>
  A Python \<open>str\<close> is modelled as a \<open>string\<close>. URLs are ASCII text; the string
  functions below are the Python ones on ASCII (\<open>str.lower\<close> folds \<open>A\<close>..\<open>Z\<close>),
  and the comparison of two strings is the lexicographic order on code points, as in
  Python.
\<close>

definition TAB :: char where "TAB = CHR 0x09"
definition LF :: char where "LF = CHR 0x0A"
definition CR :: char where "CR = CHR 0x0D"

definition isupper :: "char \<Rightarrow> bool" where
  "isupper c = (CHR ''A'' \<le> c \<and> c \<le> CHR ''Z'')"

definition islower :: "char \<Rightarrow> bool" where
  "islower c = (CHR ''a'' \<le> c \<and> c \<le> CHR ''z'')"

definition isdigit :: "char \<Rightarrow> bool" where
  "isdigit c = (CHR ''0'' \<le> c \<and> c \<le> CHR ''9'')"

definition isalpha :: "char \<Rightarrow> bool" where
  \<comment> \<open>\<open>c.isascii() and c.isalpha()\<close>\<close>
  "isalpha c = (isupper c \<or> islower c)"

definition lower_char :: "char \<Rightarrow> char" where
  "lower_char c = (if isupper c then char_of (of_char c + (32::nat)) else c)"

definition lower :: "string \<Rightarrow> string" where
  "lower s = map lower_char s"

definition startswith :: "string \<Rightarrow> string \<Rightarrow> bool" where
  "startswith s p = (take (length p) s = p)"

definition endswith :: "string \<Rightarrow> string \<Rightarrow> bool" where
  "endswith s p = (length p \<le> length s \<and> drop (length s - length p) s = p)"

text \<open>\<open>s.replace(old, new)\<close> for a non-empty \<open>old\<close>: every occurrence, left to right,
  without overlap.\<close>

fun replace :: "string \<Rightarrow> string \<Rightarrow> string \<Rightarrow> string" where
  "replace old new [] = []"
| "replace old new (c # cs) =
     (if startswith (c # cs) old
      then new @ replace old new (drop (length old - 1) cs)
      else c # replace old new cs)"

definition rstrip :: "char \<Rightarrow> string \<Rightarrow> string" where
  \<comment> \<open>\<open>s.rstrip(c)\<close> for a single character\<close>
  "rstrip c s = rev (dropWhile (\<lambda>x. x = c) (rev s))"

definition before :: "char \<Rightarrow> string \<Rightarrow> string" where
  \<comment> \<open>\<open>s.partition(c)[0]\<close>: the text before the first \<open>c\<close>, all of \<open>s\<close> without one\<close>
  "before c s = takeWhile (\<lambda>x. x \<noteq> c) s"

definition after :: "char \<Rightarrow> string \<Rightarrow> string" where
  \<comment> \<open>\<open>s.partition(c)[2]\<close>: the text after the first \<open>c\<close>, empty without one\<close>
  "after c s = drop 1 (dropWhile (\<lambda>x. x \<noteq> c) s)"

fun split :: "char \<Rightarrow> string \<Rightarrow> string list" where
  \<comment> \<open>\<open>s.split(c)\<close>\<close>
  "split c [] = [[]]"
| "split c (x # xs) =
     (case split c xs of
        [] \<Rightarrow> [[x]]
      | p # ps \<Rightarrow> (if x = c then [] # p # ps else (x # p) # ps))"

fun join :: "string \<Rightarrow> string list \<Rightarrow> string" where
  \<comment> \<open>\<open>sep.join(parts)\<close>\<close>
  "join sep [] = []"
| "join sep [p] = p"
| "join sep (p # q # ps) = p @ sep @ join sep (q # ps)"

text \<open>\<open>re.sub(pat + '$', '', s)\<close> for a literal \<open>pat\<close>: \<open>$\<close> matches at the end of the
  string and before a newline that ends it.\<close>

definition re_sub_at_end :: "string \<Rightarrow> string \<Rightarrow> string" where
  "re_sub_at_end pat s =
     (if endswith s pat then take (length s - length pat) s
      else if endswith s (pat @ [LF]) then take (length s - length pat - 1) s @ [LF]
      else s)"

section \<open>Exceptions and the libraries outside the repository\<close>

datatype error = ValueError string | LibraryError string

fun str :: "error \<Rightarrow> string" where
  "str (ValueError m) = m"
| "str (LibraryError m) = m"

datatype ip_version = IPv4Address | IPv6Address

text \<open>
  The code calls libraries that are not part of the repository. Those with a short,
  fixed algorithm (the \<open>urllib.parse\<close> functions of CPython 3.11) are written out
  below; the others are parameters, collected in one record:
  \<^item> \<open>ip_address\<close>: \<open>ipaddress.ip_address\<close>, \<open>Inl m\<close> when it raises \<open>ValueError(m)\<close>;
  \<^item> \<open>decode_replace\<close>: \<open>bytes.decode('utf-8', 'replace')\<close>, seen on the UTF-8 bytes;
  \<^item> \<open>hash128\<close>: \<open>mmh3.hash128\<close> (unsigned), \<open>Inl e\<close> when it raises;
  \<^item> \<open>tldextract\<close>: \<open>tldextract.extract\<close>, the pair of \<open>domain\<close> and \<open>suffix\<close>,
    \<open>Inl e\<close> when it raises;
  \<^item> \<open>pybloom_importable\<close>: whether \<open>pybloom_live\<close> can be imported;
  \<^item> \<open>false_positive\<close>: the answers of the scalable Bloom filter on keys that were
    never added, as a function of the keys added so far.
\<close>

record pylib =
  ip_address :: "string \<Rightarrow> string + ip_version"
  decode_replace :: "string \<Rightarrow> string"
  hash128 :: "string \<Rightarrow> error + nat"
  tldextract :: "string \<Rightarrow> error + string \<times> string"
  pybloom_importable :: bool
  false_positive :: "string list \<Rightarrow> string \<Rightarrow> bool"

section \<open>\<open>urllib.parse\<close>\<close>

record ParseResult =
  scheme :: string
  netloc :: string
  path :: string
  params :: string
  query :: string
  fragment :: string

definition uses_netloc :: "string list" where
  "uses_netloc = ['''', ''ftp'', ''http'', ''gopher'', ''nntp'', ''telnet'',
     ''imap'', ''wais'', ''file'', ''mms'', ''https'', ''shttp'',
     ''snews'', ''prospero'', ''rtsp'', ''rtsps'', ''rtspu'', ''rsync'',
     ''svn'', ''svn+ssh'', ''sftp'', ''nfs'', ''git'', ''git+ssh'',
     ''ws'', ''wss'']"

definition uses_params :: "string list" where
  "uses_params = ['''', ''ftp'', ''hdl'', ''prospero'', ''http'', ''imap'',
     ''https'', ''shttp'', ''rtsp'', ''rtsps'', ''rtspu'', ''sip'',
     ''sips'', ''mms'', ''sftp'', ''tel'']"

definition scheme_char :: "char \<Rightarrow> bool" where
  "scheme_char c = (isalpha c \<or> isdigit c \<or> c \<in> set ''+-.'')"

definition ishex :: "char \<Rightarrow> bool" where
  "ishex c = (isdigit c \<or> (CHR ''a'' \<le> c \<and> c \<le> CHR ''f'') \<or> (CHR ''A'' \<le> c \<and> c \<le> CHR ''F''))"

definition ipvfuture :: "string \<Rightarrow> bool" where
  \<comment> \<open>\<open>re.match(r"\Av[a-fA-F0-9]+\..+\Z", hostname)\<close>\<close>
  "ipvfuture h =
     (case h of
        [] \<Rightarrow> False
      | c # cs \<Rightarrow>
          c = CHR ''v'' \<and>
          (let ds = takeWhile ishex cs; r = dropWhile ishex cs
           in ds \<noteq> [] \<and> startswith r ''.'' \<and> drop 1 r \<noteq> [] \<and> LF \<notin> set (drop 1 r)))"

definition check_bracketed_host :: "pylib \<Rightarrow> string \<Rightarrow> error option" where
  "check_bracketed_host L hostname =
     (if startswith hostname ''v''
      then (if ipvfuture hostname then None
            else Some (ValueError ''IPvFuture address is invalid''))
      else (case ip_address L hostname of
              Inl m \<Rightarrow> Some (ValueError m)
            | Inr IPv4Address \<Rightarrow> Some (ValueError ''An IPv4 address cannot be in brackets'')
            | Inr IPv6Address \<Rightarrow> None))"

definition splitnetloc :: "string \<Rightarrow> string \<times> string" where
  \<comment> \<open>\<open>_splitnetloc(url, 2)\<close>\<close>
  "splitnetloc url =
     (takeWhile (\<lambda>c. c \<notin> set ''/?#'') (drop 2 url),
      dropWhile (\<lambda>c. c \<notin> set ''/?#'') (drop 2 url))"

definition split_scheme :: "string \<Rightarrow> string \<times> string" where
  "split_scheme url =
     (let pre = before CHR '':'' url
      in if CHR '':'' \<in> set url \<and> pre \<noteq> [] \<and> isalpha (hd pre) \<and> list_all scheme_char pre
         then (lower pre, after CHR '':'' url)
         else ('''', url))"

definition urlsplit :: "pylib \<Rightarrow> string \<Rightarrow> error + ParseResult" where
  "urlsplit L url0 =
     (let url1 = dropWhile (\<lambda>c. of_char c \<le> (32::nat)) url0;
          url2 = filter (\<lambda>c. c \<notin> {TAB, CR, LF}) url1;
          (sch, url3) = split_scheme url2;
          (nl, url4) = (if startswith url3 ''//'' then splitnetloc url3 else ('''', url3));
          bad = (if startswith url3 ''//''
                 then (if (CHR ''['' \<in> set nl \<and> CHR '']'' \<notin> set nl) \<or>
                          (CHR '']'' \<in> set nl \<and> CHR ''['' \<notin> set nl)
                       then Some (ValueError ''Invalid IPv6 URL'')
                       else if CHR ''['' \<in> set nl \<and> CHR '']'' \<in> set nl
                       then check_bracketed_host L (before CHR '']'' (after CHR ''['' nl))
                       else None)
                 else None);
          frag = after CHR ''#'' url4;
          url5 = before CHR ''#'' url4;
          q = after CHR ''?'' url5;
          url6 = before CHR ''?'' url5
      in case bad of
           Some e \<Rightarrow> Inl e
         | None \<Rightarrow> Inr \<lparr>scheme = sch, netloc = nl, path = url6, params = '''',
                         query = q, fragment = frag\<rparr>)"

definition splitparams :: "string \<Rightarrow> string \<times> string" where
  "splitparams url =
     (if CHR ''/'' \<in> set url
      then (let seg = rev (takeWhile (\<lambda>c. c \<noteq> CHR ''/'') (rev url));
                dir = take (length url - length seg) url
            in if CHR '';'' \<in> set seg
               then (dir @ before CHR '';'' seg, after CHR '';'' seg)
               else (url, ''''))
      else (before CHR '';'' url, after CHR '';'' url))"

definition urlparse :: "pylib \<Rightarrow> string \<Rightarrow> error + ParseResult" where
  "urlparse L url =
     (case urlsplit L url of
        Inl e \<Rightarrow> Inl e
      | Inr r \<Rightarrow>
          (if scheme r \<in> set uses_params \<and> CHR '';'' \<in> set (path r)
           then (let (u, p) = splitparams (path r) in Inr (r\<lparr>path := u, params := p\<rparr>))
           else Inr r))"

definition urlunsplit :: "string \<Rightarrow> string \<Rightarrow> string \<Rightarrow> string \<Rightarrow> string \<Rightarrow> string" where
  "urlunsplit sch nl url q frag =
     (let url1 = (if nl \<noteq> [] \<or> (sch \<noteq> [] \<and> sch \<in> set uses_netloc) \<or> startswith url ''//''
                  then ''//'' @ nl @ (if url \<noteq> [] \<and> \<not> startswith url ''/'' then ''/'' @ url else url)
                  else url);
          url2 = (if sch \<noteq> [] then sch @ '':'' @ url1 else url1);
          url3 = (if q \<noteq> [] then url2 @ ''?'' @ q else url2)
      in if frag \<noteq> [] then url3 @ ''#'' @ frag else url3)"

definition urlunparse :: "string \<Rightarrow> string \<Rightarrow> string \<Rightarrow> string \<Rightarrow> string \<Rightarrow> string \<Rightarrow> string" where
  "urlunparse sch nl url ps q frag =
     urlunsplit sch nl (if ps \<noteq> [] then url @ '';'' @ ps else url) q frag"

definition hexval :: "char \<Rightarrow> nat" where
  "hexval c =
     (if isdigit c then of_char c - 48
      else if CHR ''a'' \<le> c \<and> c \<le> CHR ''f'' then of_char c - 87
      else of_char c - 55)"

fun unquote_item :: "string \<Rightarrow> string" where
  \<comment> \<open>one piece after a \<open>%\<close>: two hex digits are a byte, anything else keeps its \<open>%\<close>\<close>
  "unquote_item (a # b # r) =
     (if ishex a \<and> ishex b then char_of (16 * hexval a + hexval b) # r
      else CHR ''%'' # a # b # r)"
| "unquote_item r = CHR ''%'' # r"

definition unquote_to_bytes :: "string \<Rightarrow> string" where
  "unquote_to_bytes s =
     (case split CHR ''%'' s of
        [] \<Rightarrow> []
      | b # bs \<Rightarrow> b @ concat (map unquote_item bs))"

definition unquote :: "pylib \<Rightarrow> string \<Rightarrow> string" where
  "unquote L s =
     (if CHR ''%'' \<notin> set s then s else decode_replace L (unquote_to_bytes s))"

definition unquote_plus :: "pylib \<Rightarrow> string \<Rightarrow> string" where
  "unquote_plus L s = unquote L (replace ''+'' '' '' s)"

definition parse_qsl :: "pylib \<Rightarrow> bool \<Rightarrow> string \<Rightarrow> (string \<times> string) list" where
  \<comment> \<open>\<open>parse_qsl(qs, keep_blank_values)\<close>, with the separator \<open>&\<close>\<close>
  "parse_qsl L keep_blank_values qs =
     (if qs = [] then []
      else map (\<lambda>nv. (unquote_plus L (before CHR ''='' nv), unquote_plus L (after CHR ''='' nv)))
             (filter (\<lambda>nv. nv \<noteq> [] \<and> (after CHR ''='' nv \<noteq> [] \<or> keep_blank_values))
                (split CHR ''&'' qs)))"

text \<open>A Python \<open>dict\<close> keeps its keys in the order of their first insertion, and the
  code sorts and slices the items of its dictionaries: a dictionary is an association
  list in insertion order.\<close>

fun dict_append :: "('k \<times> 'v list) list \<Rightarrow> 'k \<Rightarrow> 'v \<Rightarrow> ('k \<times> 'v list) list" where
  "dict_append [] k v = [(k, [v])]"
| "dict_append ((k', vs) # r) k v =
     (if k' = k then (k', vs @ [v]) # r else (k', vs) # dict_append r k v)"

definition parse_qs :: "pylib \<Rightarrow> bool \<Rightarrow> string \<Rightarrow> (string \<times> string list) list" where
  "parse_qs L keep_blank_values qs =
     foldl (\<lambda>parsed_result (name, val). dict_append parsed_result name val) []
       (parse_qsl L keep_blank_values qs)"

definition always_safe :: "char \<Rightarrow> bool" where
  "always_safe c = (isalpha c \<or> isdigit c \<or> c \<in> set ''_.-~'')"

definition HEX :: "nat \<Rightarrow> char" where
  "HEX n = (if n < 10 then char_of (48 + n) else char_of (55 + n))"

definition quoter :: "char \<Rightarrow> string" where
  "quoter c =
     (if always_safe c then [c]
      else [CHR ''%'', HEX (of_char c div 16), HEX (of_char c mod 16)])"

definition quote_plus :: "string \<Rightarrow> string" where
  \<comment> \<open>\<open>quote_plus(s, safe='')\<close>\<close>
  "quote_plus s = concat (map (\<lambda>c. if c = CHR '' '' then ''+'' else quoter c) s)"

definition urlencode :: "(string \<times> string list) list \<Rightarrow> string" where
  \<comment> \<open>\<open>urlencode(items, doseq=True)\<close> on pairs of a name and a list of values\<close>
  "urlencode items =
     join ''&'' (concat (map (\<lambda>(k, v). map (\<lambda>elt. quote_plus k @ ''='' @ quote_plus elt) v) items))"

section \<open>The normalizer (\<open>src/crawler/utils/normalize.py\<close>)\<close>

definition remove_params :: "string set" where
  "remove_params = {''utm_source'', ''utm_medium'', ''utm_campaign'',
     ''utm_term'', ''utm_content'', ''fbclid'',
     ''gclid'', ''ref'', ''source''}"

definition domain_variations :: "(string \<times> string) list" where
  "domain_variations = [(''www.'', ''''), (''.m.'', ''.''), (''-mobile.'', ''.'')]"

definition normalize_netloc :: "string \<Rightarrow> string" where
  \<comment> \<open>lines 36 to 45: lower case, default ports, domain variations\<close>
  "normalize_netloc nl =
     foldl (\<lambda>n (variation, replacement). replace variation replacement n)
       (re_sub_at_end '':443'' (re_sub_at_end '':80'' (lower nl)))
       domain_variations"

definition normalize_path :: "string \<Rightarrow> string" where
  \<comment> \<open>lines 37 and 48 to 50: lower case, no trailing slash, \<open>/\<close> when empty\<close>
  "normalize_path p =
     (let path1 = rstrip CHR ''/'' (lower p) in if path1 = [] then ''/'' else path1)"

definition sorted_params :: "pylib \<Rightarrow> string \<Rightarrow> (string \<times> string list) list" where
  \<comment> \<open>lines 53 to 60\<close>
  "sorted_params L q =
     sort (filter (\<lambda>(k, v). k \<notin> remove_params) (parse_qs L False q))"

definition normalize :: "pylib \<Rightarrow> string \<Rightarrow> string option" where
  "normalize L url =
     (case urlparse L url of
        Inl e \<Rightarrow> None
      | Inr parsed \<Rightarrow>
          Some (urlunparse (scheme parsed) (normalize_netloc (netloc parsed))
                  (normalize_path (path parsed)) ''''
                  (urlencode (sorted_params L (query parsed))) ''''))"

section \<open>The validator (\<open>src/crawler/utils/validation.py\<close>)\<close>

record URLValidationResult =
  is_valid :: bool
  reason :: string

definition skip_extensions :: "string set" where
  "skip_extensions = {''.pdf'', ''.doc'', ''.docx'', ''.xls'', ''.xlsx'',
     ''.zip'', ''.rar'', ''.tar'', ''.gz'', ''.jpg'',
     ''.jpeg'', ''.png'', ''.gif'', ''.mp4'', ''.mp3''}"

definition blocked_domains :: "string set" where
  "blocked_domains = {''facebook.com'', ''twitter.com'', ''instagram.com'',
     ''youtube.com'', ''linkedin.com''}"

definition is_valid_url :: "pylib \<Rightarrow> string \<Rightarrow> URLValidationResult" where
  "is_valid_url L url =
     (case urlparse L url of
        Inl e \<Rightarrow> \<lparr>is_valid = False, reason = ''Validation error: '' @ str e\<rparr>
      | Inr parsed \<Rightarrow>
          if scheme parsed = [] \<or> netloc parsed = []
          then \<lparr>is_valid = False, reason = ''Invalid URL format''\<rparr>
          else if scheme parsed \<notin> {''http'', ''https''}
          then \<lparr>is_valid = False, reason = ''Invalid scheme''\<rparr>
          else (case tldextract L url of
                  Inl e \<Rightarrow> \<lparr>is_valid = False, reason = ''Validation error: '' @ str e\<rparr>
                | Inr (domain, suffix) \<Rightarrow>
                    if domain @ ''.'' @ suffix \<in> blocked_domains
                    then \<lparr>is_valid = False, reason = ''Blocked domain''\<rparr>
                    else if \<exists>ext \<in> skip_extensions. endswith (lower url) ext
                    then \<lparr>is_valid = False, reason = ''Blocked file extension''\<rparr>
                    else if length url > 2000
                    then \<lparr>is_valid = False, reason = ''URL too long''\<rparr>
                    else \<lparr>is_valid = True, reason = ''''\<rparr>))"

section \<open>The deduplicator (\<open>src/crawler/utils/deduplication.py\<close>)\<close>

record DeduplicationResult =
  is_duplicate :: bool
  hash_value :: string
  normalized_url :: string
  dedup_reason :: "string option"

text \<open>
  The state of a \<open>URLDeduplicator\<close>. \<open>seen_urls\<close> is a Python set, \<open>url_frequency\<close> a
  dictionary (its items are sorted by a stable sort, so their order matters), the four
  counters are the entries of \<open>stats\<close>. \<open>max_cache_size\<close> is a number of keys, a natural
  number. The Bloom filter is the list of the keys added to it, the oldest first: it
  answers yes on every key it holds, and on the others as \<open>false_positive\<close> says; a
  filter that holds nothing answers no.
\<close>

record URLDeduplicator =
  seen_urls :: "string set"
  url_frequency :: "(string \<times> int) list"
  max_cache_size :: nat
  total_urls :: int
  duplicates :: int
  unique_urls :: int
  cache_evictions :: int
  use_bloom_filter :: bool
  bloom_filter :: "string list"

definition bloom_contains :: "pylib \<Rightarrow> string list \<Rightarrow> string \<Rightarrow> bool" where
  "bloom_contains L keys k = (k \<in> set keys \<or> (keys \<noteq> [] \<and> false_positive L keys k))"

definition bloom_add :: "string list \<Rightarrow> string \<Rightarrow> string list" where
  "bloom_add keys k = keys @ [k]"

fun dict_set :: "('k \<times> 'v) list \<Rightarrow> 'k \<Rightarrow> 'v \<Rightarrow> ('k \<times> 'v) list" where
  \<comment> \<open>\<open>d[k] = v\<close>: a key already there keeps its place\<close>
  "dict_set [] k v = [(k, v)]"
| "dict_set ((k', v') # r) k v =
     (if k' = k then (k, v) # r else (k', v') # dict_set r k v)"

definition dict_get :: "('k \<times> 'v) list \<Rightarrow> 'k \<Rightarrow> 'v \<Rightarrow> 'v" where
  \<comment> \<open>\<open>d.get(k, default)\<close>\<close>
  "dict_get d k dflt = (case map_of d k of None \<Rightarrow> dflt | Some v \<Rightarrow> v)"

definition init :: "pylib \<Rightarrow> nat \<Rightarrow> bool \<Rightarrow> URLDeduplicator" where
  \<comment> \<open>\<open>__init__(max_cache_size, use_bloom_filter)\<close>; the filter's size and error rate
      only tune \<open>false_positive\<close>\<close>
  "init L cache_size use_bloom =
     \<lparr>seen_urls = {}, url_frequency = [], max_cache_size = cache_size,
      total_urls = 0, duplicates = 0, unique_urls = 0, cache_evictions = 0,
      use_bloom_filter = (use_bloom \<and> pybloom_importable L), bloom_filter = []\<rparr>"

fun hex_digits :: "nat \<Rightarrow> string" where
  \<comment> \<open>\<open>hex(n)[2:]\<close> for \<open>n \<ge> 0\<close>\<close>
  "hex_digits n =
     (if n < 16 then [lower_char (HEX n)]
      else hex_digits (n div 16) @ [lower_char (HEX (n mod 16))])"

definition compute_url_hash :: "pylib \<Rightarrow> string \<Rightarrow> error + string" where
  "compute_url_hash L url =
     (case hash128 L url of Inl e \<Rightarrow> Inl e | Inr n \<Rightarrow> Inr (hex_digits n))"

definition should_evict_cache :: "URLDeduplicator \<Rightarrow> bool" where
  "should_evict_cache d = (card (seen_urls d) \<ge> max_cache_size d)"

text \<open>\<open>int(max_cache_size * 0.75)\<close> is \<open>3 * max_cache_size div 4\<close>: the product with
  \<open>0.75\<close> is exact in double precision for every size below \<open>2^51\<close>. \<open>sorted\<close> with
  \<open>reverse=True\<close> is stable: items of equal frequency keep their order.\<close>

definition evict_cache :: "URLDeduplicator \<Rightarrow> URLDeduplicator" where
  "evict_cache d =
     (if \<not> should_evict_cache d then d
      else
        (let sorted_urls = sort_key (\<lambda>x. - snd x) (url_frequency d);
             urls_to_keep = set (map fst (take (3 * max_cache_size d div 4) sorted_urls))
         in d\<lparr>seen_urls := urls_to_keep,
               url_frequency := filter (\<lambda>(url, freq). url \<in> urls_to_keep) (url_frequency d),
               cache_evictions := cache_evictions d + 1\<rparr>))"

definition tracking_params :: "string set" where
  "tracking_params = {''utm_source'', ''utm_medium'', ''utm_campaign'', ''fbclid'', ''ref''}"

definition normalize_query_parameters :: "pylib \<Rightarrow> string \<Rightarrow> error + string" where
  "normalize_query_parameters L url =
     (case urlparse L url of
        Inl e \<Rightarrow> Inl e
      | Inr parsed \<Rightarrow>
          (let query_params = filter (\<lambda>(k, v). k \<notin> tracking_params) (parse_qs L True (query parsed))
           in if query_params \<noteq> []
              then Inr (scheme parsed @ ''://'' @ netloc parsed @ path parsed @ ''?'' @
                        urlencode (sort query_params))
              else Inr (scheme parsed @ ''://'' @ netloc parsed @ path parsed)))"

definition invalid_result :: "string \<Rightarrow> DeduplicationResult" where
  "invalid_result url =
     \<lparr>is_duplicate = True, hash_value = '''', normalized_url = url,
      dedup_reason = Some ''Invalid URL format''\<rparr>"

definition error_result :: "string \<Rightarrow> error \<Rightarrow> DeduplicationResult" where
  "error_result url e =
     \<lparr>is_duplicate = True, hash_value = '''', normalized_url = url,
      dedup_reason = Some (''Error: '' @ str e)\<rparr>"

text \<open>
  The method \<open>is_duplicate\<close> is \<open>check\<close> here (the result has a field of that name); it
  returns the state it leaves and its result. The whole body is inside \<open>try\<close>: an
  exception of \<open>_normalize_query_parameters\<close> or of the hash leaves the counter
  \<open>total_urls\<close> incremented and becomes the error result. Nothing after the hash
  raises.
\<close>

definition check :: "pylib \<Rightarrow> URLDeduplicator \<Rightarrow> string \<Rightarrow> URLDeduplicator \<times> DeduplicationResult" where
  "check L d0 url =
     (let d = d0\<lparr>total_urls := total_urls d0 + 1\<rparr>
      in case normalize L url of
           None \<Rightarrow> (d, invalid_result url)
         | Some normalized0 \<Rightarrow>
             if normalized0 = [] then (d, invalid_result url)
             else (case normalize_query_parameters L normalized0 of
                     Inl e \<Rightarrow> (d, error_result url e)
                   | Inr normalized \<Rightarrow>
                       (case compute_url_hash L normalized of
                          Inl e \<Rightarrow> (d, error_result url e)
                        | Inr url_hash \<Rightarrow>
                            if use_bloom_filter d \<and> \<not> bloom_contains L (bloom_filter d) normalized
                            then (d\<lparr>bloom_filter := bloom_add (bloom_filter d) normalized,
                                     seen_urls := insert url_hash (seen_urls d),
                                     url_frequency := dict_set (url_frequency d) url_hash 1,
                                     unique_urls := unique_urls d + 1\<rparr>,
                                  \<lparr>is_duplicate = False, hash_value = url_hash,
                                   normalized_url = normalized, dedup_reason = None\<rparr>)
                            else if url_hash \<in> seen_urls d
                            then (d\<lparr>url_frequency :=
                                       dict_set (url_frequency d) url_hash
                                         (dict_get (url_frequency d) url_hash 0 + 1),
                                     duplicates := duplicates d + 1\<rparr>,
                                  \<lparr>is_duplicate = True, hash_value = url_hash,
                                   normalized_url = normalized,
                                   dedup_reason = Some ''Exact duplicate''\<rparr>)
                            else (evict_cache
                                    (d\<lparr>seen_urls := insert url_hash (seen_urls d),
                                       url_frequency := dict_set (url_frequency d) url_hash 1,
                                       unique_urls := unique_urls d + 1\<rparr>),
                                  \<lparr>is_duplicate = False, hash_value = url_hash,
                                   normalized_url = normalized, dedup_reason = None\<rparr>))))"

definition clear_cache :: "pylib \<Rightarrow> URLDeduplicator \<Rightarrow> URLDeduplicator" where
  "clear_cache L d =
     d\<lparr>seen_urls := {}, url_frequency := [],
       bloom_filter := [],
       use_bloom_filter := (use_bloom_filter d \<and> pybloom_importable L),
       cache_evictions := cache_evictions d + 1\<rparr>"

fun add_batch :: "pylib \<Rightarrow> URLDeduplicator \<Rightarrow> string list \<Rightarrow> URLDeduplicator \<times> DeduplicationResult list" where
  "add_batch L d [] = (d, [])"
| "add_batch L d (url # urls) =
     (let (d1, r) = check L d url; (d2, rs) = add_batch L d1 urls in (d2, r # rs))"

section \<open>Sequences of public operations, and the properties they keep\<close>

datatype operation = Check string | AddBatch "string list" | ClearCache

fun apply_operation :: "pylib \<Rightarrow> URLDeduplicator \<Rightarrow> operation \<Rightarrow> URLDeduplicator \<times> DeduplicationResult list" where
  "apply_operation L d (Check url) = (let (d1, r) = check L d url in (d1, [r]))"
| "apply_operation L d (AddBatch urls) = add_batch L d urls"
| "apply_operation L d ClearCache = (clear_cache L d, [])"

fun run :: "pylib \<Rightarrow> URLDeduplicator \<Rightarrow> operation list \<Rightarrow> URLDeduplicator \<times> DeduplicationResult list" where
  "run L d [] = (d, [])"
| "run L d (x # xs) =
     (let (d1, rs1) = apply_operation L d x; (d2, rs2) = run L d1 xs in (d2, rs1 @ rs2))"

definition cache_consistent :: "URLDeduplicator \<Rightarrow> bool" where
  "cache_consistent d =
     (seen_urls d = fst ` set (url_frequency d) \<and> (\<forall>(k, f) \<in> set (url_frequency d). 0 < f))"

definition rejected :: "DeduplicationResult \<Rightarrow> bool" where
  \<comment> \<open>the result of a call that met a malformed input or an internal error\<close>
  "rejected r =
     (case dedup_reason r of
        None \<Rightarrow> False
      | Some m \<Rightarrow> m = ''Invalid URL format'' \<or> startswith m ''Error: '')"

text \<open>A small instance of the libraries, for concrete runs: the hash of a string is its
  length, the Bloom filter is exact, no bracketed host is an address.\<close>

definition example_lib :: pylib where
  "example_lib =
     \<lparr>ip_address = (\<lambda>h. Inl ''not an IP address''),
      decode_replace = (\<lambda>s. s),
      hash128 = (\<lambda>s. Inr (length s)),
      tldextract = (\<lambda>u. Inr (''example'', ''com'')),
      pybloom_importable = True,
      false_positive = (\<lambda>keys k. False)\<rparr>"

section \<open>The cache and the frequency table\<close>

lemma dict_set_keys: "fst ` set (dict_set d k v) = insert k (fst ` set d)"
  by (induction d k v rule: dict_set.induct) auto

lemma dict_set_subset: "set (dict_set d k v) \<subseteq> insert (k, v) (set d)"
  by (induction d k v rule: dict_set.induct) auto

lemma dict_set_distinct: "distinct (map fst d) \<Longrightarrow> distinct (map fst (dict_set d k v))"
  by (induction d k v rule: dict_set.induct) (auto simp: dict_set_keys)

lemma dict_set_positive:
  assumes "\<forall>(k, f) \<in> set d. (0::int) < f" and "0 < v"
  shows "\<forall>(k, f) \<in> set (dict_set d k' v). 0 < f"
  using assms dict_set_subset [of d k' v] by auto

lemma dict_get_nonneg:
  assumes "\<forall>(k, f) \<in> set d. (0::int) < f"
  shows "0 \<le> dict_get d k 0"
proof (cases "map_of d k")
  case None
  then show ?thesis by (simp add: dict_get_def)
next
  case (Some v)
  then have "(k, v) \<in> set d" by (rule map_of_SomeD)
  with assms have "0 < v" by auto
  with Some show ?thesis by (simp add: dict_get_def)
qed

lemma evict_cache_consistent:
  assumes "cache_consistent d"
  shows "cache_consistent (evict_cache d)"
proof (cases "should_evict_cache d")
  case False
  with assms show ?thesis by (simp add: evict_cache_def)
next
  case True
  define keep where "keep = set (map fst (take (3 * max_cache_size d div 4) (sort_key (\<lambda>x. - snd x) (url_frequency d))))"
  have sub: "keep \<subseteq> fst ` set (url_frequency d)"
    unfolding keep_def using set_take_subset [of "3 * max_cache_size d div 4" "sort_key (\<lambda>x. - snd x) (url_frequency d)"]
    by auto
  have "fst ` set (filter (\<lambda>(url, freq). url \<in> keep) (url_frequency d)) = keep"
    using sub by force
  moreover have "\<forall>(k, f) \<in> set (filter (\<lambda>(url, freq). url \<in> keep) (url_frequency d)). 0 < f"
    using assms by (auto simp: cache_consistent_def)
  ultimately show ?thesis
    using True by (simp add: evict_cache_def cache_consistent_def Let_def keep_def)
qed


lemma check_cases:
  fixes L d u
  defines "d1 \<equiv> d\<lparr>total_urls := total_urls d + 1\<rparr>"
  obtains
    (invalid) "check L d u = (d1, invalid_result u)"
  | (error) e where "check L d u = (d1, error_result u e)"
  | (fresh) n h where "use_bloom_filter d" "\<not> bloom_contains L (bloom_filter d) n"
      "check L d u =
         (d1\<lparr>bloom_filter := bloom_add (bloom_filter d) n,
             seen_urls := insert h (seen_urls d),
             url_frequency := dict_set (url_frequency d) h 1,
             unique_urls := unique_urls d + 1\<rparr>,
          \<lparr>is_duplicate = False, hash_value = h, normalized_url = n, dedup_reason = None\<rparr>)"
  | (duplicate) n h where "h \<in> seen_urls d"
      "check L d u =
         (d1\<lparr>url_frequency := dict_set (url_frequency d) h (dict_get (url_frequency d) h 0 + 1),
             duplicates := duplicates d + 1\<rparr>,
          \<lparr>is_duplicate = True, hash_value = h, normalized_url = n,
           dedup_reason = Some ''Exact duplicate''\<rparr>)"
  | (new) n h where "h \<notin> seen_urls d"
      "check L d u =
         (evict_cache (d1\<lparr>seen_urls := insert h (seen_urls d),
                         url_frequency := dict_set (url_frequency d) h 1,
                         unique_urls := unique_urls d + 1\<rparr>),
          \<lparr>is_duplicate = False, hash_value = h, normalized_url = n, dedup_reason = None\<rparr>)"
proof (cases "normalize L u")
  case None
  then have "check L d u = (d1, invalid_result u)"
    by (simp add: check_def d1_def Let_def)
  then show thesis by (rule invalid)
next
  case (Some n0)
  show thesis
  proof (cases "n0 = []")
    case True
    with Some have "check L d u = (d1, invalid_result u)"
      by (simp add: check_def d1_def Let_def)
    then show thesis by (rule invalid)
  next
    case nonempty: False
    show thesis
    proof (cases "normalize_query_parameters L n0")
      case (Inl e)
      with Some nonempty have "check L d u = (d1, error_result u e)"
        by (simp add: check_def d1_def Let_def)
      then show thesis by (rule error)
    next
      case (Inr n)
      show thesis
      proof (cases "compute_url_hash L n")
        case (Inl e)
        with Some nonempty Inr have "check L d u = (d1, error_result u e)"
          by (simp add: check_def d1_def Let_def)
        then show thesis by (rule error)
      next
        case hash: (Inr h)
        consider (a) "use_bloom_filter d \<and> \<not> bloom_contains L (bloom_filter d) n"
          | (b) "\<not> (use_bloom_filter d \<and> \<not> bloom_contains L (bloom_filter d) n)" "h \<in> seen_urls d"
          | (c) "\<not> (use_bloom_filter d \<and> \<not> bloom_contains L (bloom_filter d) n)" "h \<notin> seen_urls d"
          by blast
        then show thesis
        proof cases
          case a
          with Some nonempty Inr hash show thesis
            by (intro fresh [where n = n and h = h]) (auto simp add: check_def d1_def Let_def)
        next
          case b
          with Some nonempty Inr hash show thesis
            by (intro duplicate [where n = n and h = h]) (auto simp add: check_def d1_def Let_def)
        next
          case c
          with Some nonempty Inr hash show thesis
            by (intro new [where n = n and h = h]) (auto simp add: check_def d1_def Let_def)
        qed
      qed
    qed
  qed
qed

lemma check_consistent:
  assumes "cache_consistent d"
  shows "cache_consistent (fst (check L d u))"
proof -
  have pos: "\<forall>(k, f) \<in> set (url_frequency d). 0 < f"
    using assms by (simp add: cache_consistent_def)
  have seen: "seen_urls d = fst ` set (url_frequency d)"
    using assms by (simp add: cache_consistent_def)
  have ins: "cache_consistent (d'\<lparr>seen_urls := insert h (seen_urls d), url_frequency := dict_set (url_frequency d) h 1\<rparr>)" for h and d' :: URLDeduplicator
    using dict_set_positive [OF pos, of 1 h] by (simp add: cache_consistent_def dict_set_keys seen)
  have bump: "h \<in> seen_urls d \<Longrightarrow> cache_consistent (d'\<lparr>seen_urls := seen_urls d, url_frequency := dict_set (url_frequency d) h (dict_get (url_frequency d) h 0 + 1)\<rparr>)" for h and d' :: URLDeduplicator
    using dict_set_positive [OF pos, of "dict_get (url_frequency d) h 0 + 1" h] dict_get_nonneg [OF pos, of h]
    by (auto simp add: cache_consistent_def dict_set_keys seen)
  show ?thesis
  proof (cases L d u rule: check_cases)
    case invalid
    with assms show ?thesis by (simp add: cache_consistent_def)
  next
    case (error e)
    with assms show ?thesis by (simp add: cache_consistent_def)
  next
    case (fresh n h)
    then show ?thesis using ins [of h "d\<lparr>total_urls := total_urls d + 1, bloom_filter := bloom_add (bloom_filter d) n, unique_urls := unique_urls d + 1\<rparr>"]
      by (simp add: cache_consistent_def)
  next
    case (duplicate n h)
    then show ?thesis using bump [of h "d\<lparr>total_urls := total_urls d + 1, duplicates := duplicates d + 1\<rparr>"]
      by (simp add: cache_consistent_def)
  next
    case (new n h)
    note eq = new(2)
    have "cache_consistent (d\<lparr>total_urls := total_urls d + 1, seen_urls := insert h (seen_urls d),
                         url_frequency := dict_set (url_frequency d) h 1,
                         unique_urls := unique_urls d + 1\<rparr>)"
      using ins [of h "d\<lparr>total_urls := total_urls d + 1, unique_urls := unique_urls d + 1\<rparr>"]
      by (simp add: cache_consistent_def)
    then show ?thesis using eq evict_cache_consistent by simp
  qed
qed

lemma add_batch_consistent:
  "cache_consistent d \<Longrightarrow> cache_consistent (fst (add_batch L d us))"
proof (induction us arbitrary: d)
  case Nil
  then show ?case by simp
next
  case (Cons u us)
  from Cons.prems have "cache_consistent (fst (check L d u))" by (rule check_consistent)
  then have "cache_consistent (fst (add_batch L (fst (check L d u)) us))" by (rule Cons.IH)
  then show ?case by (simp add: split_beta Let_def)
qed

lemma clear_cache_consistent: "cache_consistent (clear_cache L d)"
  by (simp add: clear_cache_def cache_consistent_def)

lemma init_consistent: "cache_consistent (init L n b)"
  by (simp add: init_def cache_consistent_def)

lemma apply_operation_consistent:
  "cache_consistent d \<Longrightarrow> cache_consistent (fst (apply_operation L d x))"
  by (cases x) (simp_all add: check_consistent add_batch_consistent clear_cache_consistent split_beta)

lemma run_consistent:
  "cache_consistent d \<Longrightarrow> cache_consistent (fst (run L d xs))"
proof (induction xs arbitrary: d)
  case Nil
  then show ?case by simp
next
  case (Cons x xs)
  from Cons.prems have "cache_consistent (fst (apply_operation L d x))"
    by (rule apply_operation_consistent)
  then have "cache_consistent (fst (run L (fst (apply_operation L d x)) xs))" by (rule Cons.IH)
  then show ?case by (simp add: split_beta Let_def)
qed

text \<open>
  C9. Construction, \<open>is_duplicate\<close>, \<open>add_batch\<close>, \<open>clear_cache\<close> and the eviction keep the
  membership cache and the frequency table on the same keys: a hash is in \<open>seen_urls\<close>
  exactly when it is a key of \<open>url_frequency\<close>, and every stored frequency is positive.
  So it holds after every sequence of public operations on a new deduplicator.
\<close>

theorem cache_and_frequency_table_agree:
  "cache_consistent (init L n b) \<and>
   (cache_consistent d \<longrightarrow>
      cache_consistent (fst (check L d u)) \<and>
      cache_consistent (fst (add_batch L d us)) \<and>
      cache_consistent (clear_cache L d) \<and>
      cache_consistent (evict_cache d)) \<and>
   cache_consistent (fst (run L (init L n b) ops))"
  using init_consistent check_consistent add_batch_consistent clear_cache_consistent
    evict_cache_consistent run_consistent [OF init_consistent]
  by blast

theorem cache_and_frequency_table_agree_witness:
  "cache_consistent (fst (check example_lib (init example_lib 4 False) ''http://a.com/x'')) \<and>
   cache_consistent
     (fst (check example_lib (fst (check example_lib (init example_lib 4 False) ''http://a.com/x''))
        ''http://a.com/x/'')) \<and>
   url_frequency
     (fst (check example_lib (fst (check example_lib (init example_lib 4 False) ''http://a.com/x''))
        ''http://a.com/x/'')) = [(''e'', 2)]"
proof -
  let ?d = "fst (check example_lib (init example_lib 4 False) ''http://a.com/x'')"
  have h: "cache_consistent ?d"
    by code_simp
  have f: "url_frequency (fst (check example_lib ?d ''http://a.com/x/'')) =
      [(''e'', 2)]"
    by code_simp
  from h cache_and_frequency_table_agree [of example_lib 4 False ?d "''http://a.com/x/''" "[]" "[]"]
  have "cache_consistent (fst (check example_lib ?d ''http://a.com/x/''))"
    by blast
  with h f show ?thesis by blast
qed

end
